theory Spec2Isabelle
  imports Main "HOL-Library.Word"
begin

unbundle bit_operations_syntax

section \<open>JavaScript strings\<close>

text \<open>
  A JavaScript string is a sequence of UTF-16 code units. The four suggestion prompts of
  \<^verbatim>\<open>App.jsx\<close> contain U+2019, and \<^verbatim>\<open>String.prototype.trim\<close> removes code points
  beyond Latin-1, so code units are 16-bit words rather than 8-bit characters.
  \<open>ascii\<close> embeds an ASCII literal.
\<close>

type_synonym jsstring = "16 word list"

definition ascii :: "string \<Rightarrow> jsstring" where
  "ascii cs = map of_char cs"

text \<open>
  \<^verbatim>\<open>query.trim()\<close> strips WhiteSpace and LineTerminator code points from both ends
  (ECMAScript: TAB, VT, FF, BOM, the Unicode category Zs, and LF, CR, LS, PS). All of
  them are in the Basic Multilingual Plane, so the test is on single code units.
\<close>

definition isWhiteSpace :: "16 word \<Rightarrow> bool" where
  "isWhiteSpace c \<longleftrightarrow>
     c = 0x0009 \<or> c = 0x000A \<or> c = 0x000B \<or> c = 0x000C \<or> c = 0x000D \<or>
     c = 0x0020 \<or> c = 0x00A0 \<or> c = 0x1680 \<or> (0x2000 \<le> c \<and> c \<le> 0x200A) \<or>
     c = 0x2028 \<or> c = 0x2029 \<or> c = 0x202F \<or> c = 0x205F \<or> c = 0x3000 \<or>
     c = 0xFEFF"

definition trim :: "jsstring \<Rightarrow> jsstring" where
  "trim s = rev (dropWhile isWhiteSpace (rev (dropWhile isWhiteSpace s)))"

section \<open>JSON values and the operators applied to them\<close>

text \<open>
  The value \<^verbatim>\<open>res.json()\<close> resolves to. A number is its IEEE-754 binary64 bit pattern
  (only its truthiness is inspected by the component). An object is the list of its own
  properties; \<^verbatim>\<open>JSON.parse\<close> yields each key once.
\<close>

datatype json =
    JNull
  | JBool bool
  | JNum "64 word"
  | JStr jsstring
  | JArr "json list"
  | JObj "(jsstring \<times> json) list"

text \<open>A value that was thrown, seen through \<^verbatim>\<open>err.message\<close> (\<open>None\<close>: undefined).\<close>

datatype thrown = Thrown (message: "jsstring option")

text \<open>
  What the build and the JavaScript engine supply and the source does not fix:
  \<^item> \<^verbatim>\<open>import.meta.env.VITE_API_URL\<close>, unset (\<open>None\<close>) or a string;
  \<^item> the abstract operation ToString on a value that is not already a string, as
    \<^verbatim>\<open>new Error(detail)\<close> applies it (it can throw, for an object with an own
    \<^verbatim>\<open>toString\<close> property);
  \<^item> the TypeError thrown when a property of \<^verbatim>\<open>null\<close> is read, whose message differs
    between engines.
\<close>

record runtime =
  VITE_API_URL :: "jsstring option"
  ToString :: "json \<Rightarrow> thrown + jsstring"
  null_read_error :: "jsstring \<Rightarrow> thrown"

text \<open>
  \<^verbatim>\<open>value.name\<close> for the four names the component reads (\<^verbatim>\<open>detail\<close>, \<^verbatim>\<open>error\<close>,
  \<^verbatim>\<open>first_answer\<close>, \<^verbatim>\<open>second_answer\<close>), none of which is inherited from a prototype:
  \<open>Inr None\<close> is \<^verbatim>\<open>undefined\<close>; reading from \<^verbatim>\<open>null\<close> throws.
\<close>

definition get_prop :: "runtime \<Rightarrow> json \<Rightarrow> jsstring \<Rightarrow> thrown + json option" where
  "get_prop rt v name =
     (case v of
        JNull \<Rightarrow> Inl (null_read_error rt name)
      | JObj props \<Rightarrow> Inr (map_of props name)
      | _ \<Rightarrow> Inr None)"

text \<open>ToBoolean; \<open>None\<close> is \<^verbatim>\<open>undefined\<close>. A number is falsy when it is +0, -0 or NaN.\<close>

definition isNaN :: "64 word \<Rightarrow> bool" where
  "isNaN w \<longleftrightarrow>
     w AND 0x7FF0000000000000 = 0x7FF0000000000000 \<and> w AND 0x000FFFFFFFFFFFFF \<noteq> 0"

fun truthy :: "json option \<Rightarrow> bool" where
  "truthy None = False"
| "truthy (Some JNull) = False"
| "truthy (Some (JBool b)) = b"
| "truthy (Some (JNum w)) = (w AND 0x7FFFFFFFFFFFFFFF \<noteq> 0 \<and> \<not> isNaN w)"
| "truthy (Some (JStr s)) = (s \<noteq> [])"
| "truthy (Some (JArr xs)) = True"
| "truthy (Some (JObj props)) = True"

text \<open>\<^verbatim>\<open>a || b\<close> and \<^verbatim>\<open>a ?? b\<close> (the right operand here is always a string literal).\<close>

definition js_or :: "json option \<Rightarrow> json option \<Rightarrow> json option" where
  "js_or a b = (if truthy a then a else b)"

fun nullish :: "json option \<Rightarrow> json \<Rightarrow> json" where
  "nullish None d = d"
| "nullish (Some JNull) d = d"
| "nullish (Some v) d = v"

text \<open>
  \<^verbatim>\<open>throw new Error(detail)\<close>: the value the statement throws. The constructor applies
  ToString to a message that is not \<^verbatim>\<open>undefined\<close>; when that conversion throws, its
  exception is what propagates.
\<close>

definition throw_new_Error :: "runtime \<Rightarrow> json option \<Rightarrow> thrown" where
  "throw_new_Error rt msg =
     (case msg of
        None \<Rightarrow> Thrown (Some [])
      | Some (JStr s) \<Rightarrow> Thrown (Some s)
      | Some v \<Rightarrow> (case ToString rt v of Inl e \<Rightarrow> e | Inr s \<Rightarrow> Thrown (Some s)))"

text \<open>\<^verbatim>\<open>err.message || fallback\<close>, for the string the catch block hands to \<^verbatim>\<open>setError\<close>.\<close>

definition message_or :: "thrown \<Rightarrow> jsstring \<Rightarrow> jsstring" where
  "message_or err fallback =
     (case message err of
        None \<Rightarrow> fallback
      | Some m \<Rightarrow> if m = [] then fallback else m)"

section \<open>The request and what the network answers\<close>

record request =
  url :: jsstring
  http_method :: jsstring
  headers :: "(jsstring \<times> jsstring) list"
  body :: json \<comment> \<open>the value handed to \<^verbatim>\<open>JSON.stringify\<close>\<close>

text \<open>\<^verbatim>\<open>await res.json()\<close> either throws (the body is not JSON) or yields the parsed value.\<close>

datatype json_result = JsonThrows thrown | JsonValue json

record http_response =
  status :: nat
  json_outcome :: json_result

text \<open>\<^verbatim>\<open>res.ok\<close>: the status is in the range 200 to 299.\<close>

definition ok :: "http_response \<Rightarrow> bool" where
  "ok res \<longleftrightarrow> 200 \<le> status res \<and> status res \<le> 299"

text \<open>\<^verbatim>\<open>await fetch(...)\<close> either rejects (no response at all) or resolves to a response.\<close>

datatype fetch_outcome = Rejected thrown | Resolved http_response

definition default_API_URL :: jsstring where
  "default_API_URL = ascii ''http://127.0.0.1:8000/api/ask/''"

definition API_URL :: "runtime \<Rightarrow> jsstring" where
  "API_URL rt = (case VITE_API_URL rt of None \<Rightarrow> default_API_URL | Some u \<Rightarrow> u)"

definition suggestions :: "jsstring list" where
  "suggestions =
     [ascii ''How is AI used to detect early-stage Alzheimer'' @ [0x2019] @ ascii ''s disease?'',
      ascii ''What does research say about climate-resilient agriculture strategies?'',
      ascii ''Summarize peer-reviewed findings on AI-assisted drug discovery pipelines.'',
      ascii ''What are emerging best practices for cybersecurity in healthcare IoT devices?'']"

section \<open>The component's state\<close>

text \<open>The object \<^verbatim>\<open>setResponse\<close> stores, and the four \<^verbatim>\<open>useState\<close> cells of \<^verbatim>\<open>App\<close>.\<close>

record response_obj =
  title :: json
  summary :: json

record app_state =
  prompt :: jsstring
  response :: "response_obj option"
  isLoading :: bool
  error :: jsstring

definition initial_state :: app_state where
  "initial_state = \<lparr>prompt = [], response = None, isLoading = False, error = []\<rparr>"

section \<open>fetchSummary\<close>

definition validation_message :: jsstring where
  "validation_message = ascii ''Enter a research topic to explore.''"

definition fallbackMessage :: jsstring where
  "fallbackMessage = ascii ''Something went wrong. Please try again.''"

definition unreachable_message :: jsstring where
  "unreachable_message = ascii ''Unable to reach the research service.''"

definition no_title :: jsstring where
  "no_title = ascii ''No title returned''"

definition no_summary :: jsstring where
  "no_summary = ascii ''No summary available for this topic yet.''"

definition make_request :: "runtime \<Rightarrow> jsstring \<Rightarrow> request" where
  "make_request rt trimmed =
     \<lparr>url = API_URL rt,
      http_method = ascii ''POST'',
      headers = [(ascii ''Content-Type'', ascii ''application/json'')],
      body = JObj [(ascii ''prompt'', JStr trimmed)]\<rparr>"

text \<open>
  The synchronous part of \<^verbatim>\<open>fetchSummary\<close>, up to the call of \<^verbatim>\<open>fetch\<close>: the state
  after its setter calls, and the request it issues (\<open>None\<close>: it returned before).
\<close>

definition fetchSummary_begin ::
  "runtime \<Rightarrow> jsstring \<Rightarrow> app_state \<Rightarrow> app_state \<times> request option" where
  "fetchSummary_begin rt query s =
     (let trimmed = trim query in
      if trimmed = [] then (s\<lparr>error := validation_message\<rparr>, None)
      else (s\<lparr>isLoading := True, error := []\<rparr>, Some (make_request rt trimmed)))"

text \<open>
  The inner \<^verbatim>\<open>try\<close> of the branch \<^verbatim>\<open>!res.ok\<close>: the final value of the variable
  \<^verbatim>\<open>detail\<close>. An exception of \<^verbatim>\<open>res.json()\<close> or of the property reads leaves it at
  \<^verbatim>\<open>fallbackMessage\<close>. \<^verbatim>\<open>errorBody.error\<close> is read only when \<^verbatim>\<open>errorBody.detail\<close>
  is falsy.
\<close>

definition error_detail :: "runtime \<Rightarrow> http_response \<Rightarrow> json option" where
  "error_detail rt res =
     (case json_outcome res of
        JsonThrows e \<Rightarrow> Some (JStr fallbackMessage)
      | JsonValue errorBody \<Rightarrow>
          (case get_prop rt errorBody (ascii ''detail'') of
             Inl e \<Rightarrow> Some (JStr fallbackMessage)
           | Inr d \<Rightarrow>
               if truthy d then d
               else (case get_prop rt errorBody (ascii ''error'') of
                       Inl e \<Rightarrow> Some (JStr fallbackMessage)
                     | Inr e \<Rightarrow> js_or e (Some (JStr fallbackMessage)))))"

text \<open>
  The body of the outer \<^verbatim>\<open>try\<close> from the point where \<^verbatim>\<open>fetch\<close> settles: \<open>Inl\<close> the
  value it throws, \<open>Inr\<close> the object it passes to \<^verbatim>\<open>setResponse\<close>.
\<close>

definition try_block :: "runtime \<Rightarrow> fetch_outcome \<Rightarrow> thrown + response_obj" where
  "try_block rt outcome =
     (case outcome of
        Rejected e \<Rightarrow> Inl e
      | Resolved res \<Rightarrow>
          if \<not> ok res then Inl (throw_new_Error rt (error_detail rt res))
          else (case json_outcome res of
                  JsonThrows e \<Rightarrow> Inl e
                | JsonValue data \<Rightarrow>
                    (case get_prop rt data (ascii ''first_answer'') of
                       Inl e \<Rightarrow> Inl e
                     | Inr first_answer \<Rightarrow>
                         (case get_prop rt data (ascii ''second_answer'') of
                            Inl e \<Rightarrow> Inl e
                          | Inr second_answer \<Rightarrow>
                              Inr \<lparr>title = nullish first_answer (JStr no_title),
                                   summary = nullish second_answer (JStr no_summary)\<rparr>))))"

text \<open>
  The continuation of \<^verbatim>\<open>fetchSummary\<close> once \<^verbatim>\<open>fetch\<close> has settled: the \<^verbatim>\<open>try\<close> body,
  the \<^verbatim>\<open>catch\<close> block and the \<^verbatim>\<open>finally\<close> block. No setter is called between the two
  awaits, and the setter calls of one continuation run without an await between them, so
  they are applied together, in source order.
\<close>

definition fetchSummary_resume :: "runtime \<Rightarrow> fetch_outcome \<Rightarrow> app_state \<Rightarrow> app_state" where
  "fetchSummary_resume rt outcome s =
     (case try_block rt outcome of
        Inr r \<Rightarrow> s\<lparr>response := Some r\<rparr>
      | Inl err \<Rightarrow> s\<lparr>response := None, error := message_or err unreachable_message\<rparr>)
     \<lparr>isLoading := False\<rparr>"

text \<open>
  A whole call of \<^verbatim>\<open>fetchSummary\<close> that terminates, from the pair its synchronous part
  produced: \<open>net\<close> is how the network settles the request. \<open>fetchSummary\<close> is the state
  when the promise it returned resolves.
\<close>

definition await_fetch ::
  "runtime \<Rightarrow> (request \<Rightarrow> fetch_outcome) \<Rightarrow> app_state \<times> request option \<Rightarrow> app_state" where
  "await_fetch rt net p =
     (case p of
        (s, None) \<Rightarrow> s
      | (s, Some req) \<Rightarrow> fetchSummary_resume rt (net req) s)"

definition fetchSummary ::
  "runtime \<Rightarrow> (request \<Rightarrow> fetch_outcome) \<Rightarrow> jsstring \<Rightarrow> app_state \<Rightarrow> app_state" where
  "fetchSummary rt net query s = await_fetch rt net (fetchSummary_begin rt query s)"

section \<open>Event handlers\<close>

text \<open>The input's \<^verbatim>\<open>onChange\<close>: \<^verbatim>\<open>setPrompt(event.target.value)\<close>.\<close>

definition onChange :: "jsstring \<Rightarrow> app_state \<Rightarrow> app_state" where
  "onChange text s = s\<lparr>prompt := text\<rparr>"

text \<open>
  The synchronous part of the two handlers. \<^verbatim>\<open>handleSubmit\<close> passes the rendered
  \<^verbatim>\<open>prompt\<close>; \<^verbatim>\<open>event.preventDefault()\<close> touches no state. \<^verbatim>\<open>handleSuggestion\<close> calls
  \<^verbatim>\<open>setPrompt(text)\<close> and passes \<^verbatim>\<open>text\<close> itself. Neither awaits the promise.
\<close>

definition handleSubmit :: "runtime \<Rightarrow> app_state \<Rightarrow> app_state \<times> request option" where
  "handleSubmit rt s = fetchSummary_begin rt (prompt s) s"

definition handleSuggestion ::
  "runtime \<Rightarrow> jsstring \<Rightarrow> app_state \<Rightarrow> app_state \<times> request option" where
  "handleSuggestion rt text s = fetchSummary_begin rt text (s\<lparr>prompt := text\<rparr>)"

section \<open>The results panel\<close>

datatype card =
    ErrorCard jsstring
  | LoadingCard
  | ResultCard json json
  | PlaceholderCard

definition hasResult :: "app_state \<Rightarrow> bool" where
  "hasResult s \<longleftrightarrow> response s \<noteq> None"

text \<open>
  The children of \<^verbatim>\<open>section.results-panel\<close> in the element \<^verbatim>\<open>App\<close> returns, in source
  order. The result card holds \<^verbatim>\<open>response.title\<close> and \<^verbatim>\<open>response.summary\<close> as children
  of its \<^verbatim>\<open>h2\<close> and \<^verbatim>\<open>p\<close>.
\<close>

definition render :: "app_state \<Rightarrow> card list" where
  "render s =
     (if error s \<noteq> [] then [ErrorCard (error s)] else []) @
     (if isLoading s then [LoadingCard] else []) @
     (if \<not> isLoading s \<and> hasResult s
      then (case response s of None \<Rightarrow> [] | Some r \<Rightarrow> [ResultCard (title r) (summary r)])
      else []) @
     (if \<not> isLoading s \<and> \<not> hasResult s \<and> error s = [] then [PlaceholderCard] else [])"

text \<open>
  What React makes of that element. A string or a number is displayed as text, a boolean
  or \<^verbatim>\<open>null\<close> as nothing, an array as its elements one after the other; an object is
  not a valid child, and React throws while rendering. The component has no error
  boundary, so the whole component is then unmounted and nothing is displayed (\<open>None\<close>).
  The transition system below follows the state of the component while it is mounted.
\<close>

fun react_child_ok :: "json \<Rightarrow> bool" where
  "react_child_ok (JObj props) = False"
| "react_child_ok (JArr xs) = list_all react_child_ok xs"
| "react_child_ok v = True"

definition panel :: "app_state \<Rightarrow> card list option" where
  "panel s =
     (if \<not> isLoading s \<and>
         (case response s of
            None \<Rightarrow> False
          | Some r \<Rightarrow> \<not> (react_child_ok (title r) \<and> react_child_ok (summary r)))
      then None else Some (render s))"

section \<open>The page as a transition system\<close>

text \<open>
  What can happen to the page: the user edits the input, submits the form, clicks the
  suggestion of a given index, or the request in flight settles. The input, the submit
  button and the suggestion buttons carry \<^verbatim>\<open>disabled={isLoading}\<close>, so the first three
  do nothing while \<^verbatim>\<open>isLoading\<close> holds; a request settles only when one is in flight.
\<close>

datatype event =
    Edit jsstring
  | SubmitForm
  | ClickSuggestion nat
  | Settle fetch_outcome

record page =
  app :: app_state
  in_flight :: "request option"

definition initial_page :: page where
  "initial_page = \<lparr>app = initial_state, in_flight = None\<rparr>"

fun page_step :: "runtime \<Rightarrow> page \<Rightarrow> event \<Rightarrow> page" where
  "page_step rt p (Edit text) =
     (if isLoading (app p) then p else p\<lparr>app := onChange text (app p)\<rparr>)"
| "page_step rt p SubmitForm =
     (if isLoading (app p) then p
      else (case handleSubmit rt (app p) of
              (s', None) \<Rightarrow> p\<lparr>app := s'\<rparr>
            | (s', Some req) \<Rightarrow> \<lparr>app = s', in_flight = Some req\<rparr>))"
| "page_step rt p (ClickSuggestion i) =
     (if isLoading (app p) \<or> length suggestions \<le> i then p
      else (case handleSuggestion rt (suggestions ! i) (app p) of
              (s', None) \<Rightarrow> p\<lparr>app := s'\<rparr>
            | (s', Some req) \<Rightarrow> \<lparr>app = s', in_flight = Some req\<rparr>))"
| "page_step rt p (Settle outcome) =
     (case in_flight p of
        None \<Rightarrow> p
      | Some req \<Rightarrow> \<lparr>app = fetchSummary_resume rt outcome (app p), in_flight = None\<rparr>)"

definition run :: "runtime \<Rightarrow> event list \<Rightarrow> page \<Rightarrow> page" where
  "run rt events p = foldl (page_step rt) p events"

section \<open>Concrete inputs\<close>

text \<open>
  An engine for the concrete inputs below, with the default endpoint. Its ToString follows
  ECMAScript on the values \<^verbatim>\<open>JSON.parse\<close> yields: \<^verbatim>\<open>null\<close> and the booleans print as
  their names; an array prints its elements joined by commas, \<^verbatim>\<open>null\<close> elements as
  nothing; an object prints as \<^verbatim>\<open>[object Object]\<close>, unless it has an own property
  \<^verbatim>\<open>toString\<close>, which is not callable, so that the conversion throws a TypeError. Of the
  numbers it prints NaN, the infinities, zero and the integers of magnitude below
  \<open>2 ^ 53\<close> (as their decimal digits); the search for the shortest digits of the other
  numbers is not modelled, and they print as the empty string here. The error messages
  are those of V8.
\<close>

fun decimal :: "nat \<Rightarrow> jsstring" where
  "decimal n =
     (if n < 10 then [of_nat (48 + n)] else decimal (n div 10) @ [of_nat (48 + n mod 10)])"

declare decimal.simps [simp del]

text \<open>
  The value of a binary64 bit pattern when it is an integer of magnitude below \<open>2 ^ 53\<close>:
  biased exponent \<open>e\<close> and fraction \<open>m\<close> stand for \<open>(2 ^ 52 + m) * 2 ^ (e - 1075)\<close>.
\<close>

definition safe_integer :: "64 word \<Rightarrow> nat option" where
  "safe_integer w =
     (let e = unat (drop_bit 52 w AND 0x7FF);
          m = unat (w AND 0xFFFFFFFFFFFFF);
          significand = 2 ^ 52 + m
      in if e = 0 \<and> m = 0 then Some 0
         else if e = 0 \<or> e = 2047 \<or> 1075 < e then None
         else if significand mod 2 ^ (1075 - e) = 0 then Some (significand div 2 ^ (1075 - e))
         else None)"

definition Number_toString :: "64 word \<Rightarrow> jsstring" where
  "Number_toString w =
     (if isNaN w then ascii ''NaN''
      else if w = 0x7FF0000000000000 then ascii ''Infinity''
      else if w = 0xFFF0000000000000 then ascii ''-Infinity''
      else (case safe_integer w of
              Some n \<Rightarrow>
                (if w AND 0x8000000000000000 \<noteq> 0 \<and> n \<noteq> 0 then ascii ''-'' else []) @ decimal n
            | None \<Rightarrow> []))"

fun join_comma :: "jsstring list \<Rightarrow> jsstring" where
  "join_comma [] = []"
| "join_comma [s] = s"
| "join_comma (s # t # ss) = s @ ascii '','' @ join_comma (t # ss)"

fun ecma_ToString :: "json \<Rightarrow> thrown + jsstring"
  and ecma_elements :: "json list \<Rightarrow> thrown + jsstring list" where
  "ecma_ToString JNull = Inr (ascii ''null'')"
| "ecma_ToString (JBool b) = Inr (if b then ascii ''true'' else ascii ''false'')"
| "ecma_ToString (JNum w) = Inr (Number_toString w)"
| "ecma_ToString (JStr s) = Inr s"
| "ecma_ToString (JArr xs) =
     (case ecma_elements xs of Inl e \<Rightarrow> Inl e | Inr ss \<Rightarrow> Inr (join_comma ss))"
| "ecma_ToString (JObj props) =
     (if map_of props (ascii ''toString'') \<noteq> None
      then Inl (Thrown (Some (ascii ''Cannot convert object to primitive value'')))
      else Inr (ascii ''[object Object]''))"
| "ecma_elements [] = Inr []"
| "ecma_elements (x # xs) =
     (case (if x = JNull then Inr [] else ecma_ToString x) of
        Inl e \<Rightarrow> Inl e
      | Inr s \<Rightarrow> (case ecma_elements xs of Inl e \<Rightarrow> Inl e | Inr ss \<Rightarrow> Inr (s # ss)))"

definition example_runtime :: runtime where
  "example_runtime =
     \<lparr>VITE_API_URL = None,
      ToString = ecma_ToString,
      null_read_error =
        (\<lambda>name. Thrown (Some (ascii ''Cannot read properties of null (reading '' @ [0x27] @
                                name @ [0x27] @ ascii '')'')))\<rparr>"

text \<open>Ways a request can settle.\<close>

definition answered :: "(jsstring \<times> json) list \<Rightarrow> request \<Rightarrow> fetch_outcome" where
  "answered props req = Resolved \<lparr>status = 200, json_outcome = JsonValue (JObj props)\<rparr>"

definition answered_with :: "json \<Rightarrow> request \<Rightarrow> fetch_outcome" where
  "answered_with v req = Resolved \<lparr>status = 200, json_outcome = JsonValue v\<rparr>"

definition refused :: "nat \<Rightarrow> json_result \<Rightarrow> request \<Rightarrow> fetch_outcome" where
  "refused code b req = Resolved \<lparr>status = code, json_outcome = b\<rparr>"

definition offline :: "request \<Rightarrow> fetch_outcome" where
  "offline req = Rejected (Thrown (Some (ascii ''Failed to fetch'')))"

definition state_with_result :: app_state where
  "state_with_result =
     \<lparr>prompt = ascii ''ai'',
      response = Some \<lparr>title = JStr (ascii ''T''), summary = JStr (ascii ''S'')\<rparr>,
      isLoading = False,
      error = []\<rparr>"

section \<open>Reading a reply by member name\<close>

text \<open>
  The member of a JSON object by name, as the interface description speaks of a reply's
  fields: a JSON value that is not an object has no members, and neither has a body
  that is not JSON.
\<close>

definition member :: "json \<Rightarrow> jsstring \<Rightarrow> json option" where
  "member v name = (case v of JObj props \<Rightarrow> map_of props name | _ \<Rightarrow> None)"

definition reply_member :: "http_response \<Rightarrow> jsstring \<Rightarrow> json option" where
  "reply_member res name =
     (case json_outcome res of JsonThrows e \<Rightarrow> None | JsonValue v \<Rightarrow> member v name)"

text \<open>
  What holds of every page the events can produce: the loading flag is set exactly while
  a request is in flight, no error is held while loading, and an error held together
  with a result can only be the validation message.
\<close>

definition page_inv :: "page \<Rightarrow> bool" where
  "page_inv p \<longleftrightarrow>
     (isLoading (app p) \<longleftrightarrow> in_flight p \<noteq> None) \<and>
     (isLoading (app p) \<longrightarrow> error (app p) = []) \<and>
     (response (app p) \<noteq> None \<longrightarrow> error (app p) = [] \<or> error (app p) = validation_message)"


section \<open>Basic facts\<close>

lemma all_dropWhile_iff: "(\<forall>x\<in>set (dropWhile P xs). P x) \<longleftrightarrow> (\<forall>x\<in>set xs. P x)"
  by (induction xs) auto

text \<open>The trimmed text is empty exactly when every code unit of the text is white space.\<close>

lemma trim_Nil_iff: "trim s = [] \<longleftrightarrow> (\<forall>c\<in>set s. isWhiteSpace c)"
  by (simp add: trim_def all_dropWhile_iff)

lemma begin_nonblank:
  "trim text \<noteq> [] \<Longrightarrow>
   fetchSummary_begin rt text s =
     (s\<lparr>isLoading := True, error := []\<rparr>, Some (make_request rt (trim text)))"
  by (simp add: fetchSummary_begin_def Let_def)

lemma begin_blank:
  "trim text = [] \<Longrightarrow>
   fetchSummary_begin rt text s = (s\<lparr>error := validation_message\<rparr>, None)"
  by (simp add: fetchSummary_begin_def Let_def)

lemma fetchSummary_nonblank:
  "trim text \<noteq> [] \<Longrightarrow>
   fetchSummary rt net text s =
     fetchSummary_resume rt (net (make_request rt (trim text)))
       (s\<lparr>isLoading := True, error := []\<rparr>)"
  by (simp add: fetchSummary_def await_fetch_def begin_nonblank)

lemma render_loading: "isLoading s \<Longrightarrow> error s = [] \<Longrightarrow> render s = [LoadingCard]"
  by (simp add: render_def)

lemma render_result:
  "\<not> isLoading s \<Longrightarrow> error s = [] \<Longrightarrow> response s = Some r \<Longrightarrow>
   render s = [ResultCard (title r) (summary r)]"
  by (simp add: render_def hasResult_def)

lemma render_error:
  "\<not> isLoading s \<Longrightarrow> error s \<noteq> [] \<Longrightarrow> response s = None \<Longrightarrow>
   render s = [ErrorCard (error s)]"
  by (simp add: render_def hasResult_def)

lemma run_Nil: "run rt [] p = p"
  by (simp add: run_def)

lemma run_Cons: "run rt (e # es) p = run rt es (page_step rt p e)"
  by (simp add: run_def)

lemma ai_nonblank: "trim (ascii ''ai'') \<noteq> []"
  by (simp add: trim_def ascii_def isWhiteSpace_def)

lemma get_prop_member:
  "v \<noteq> JNull \<Longrightarrow> get_prop rt v name = Inr (member v name)"
  by (cases v) (simp_all add: get_prop_def member_def)

lemma nullish_eq:
  "nullish f d = (if f = None \<or> f = Some JNull then d else the f)"
  by (cases "(f, d)" rule: nullish.cases) simp_all

lemma fallbackMessage_nonempty: "fallbackMessage \<noteq> []"
  by (simp add: fallbackMessage_def ascii_def)

lemma unreachable_message_nonempty: "unreachable_message \<noteq> []"
  by (simp add: unreachable_message_def ascii_def)

lemma message_or_nonempty: "fb \<noteq> [] \<Longrightarrow> message_or e fb \<noteq> []"
  by (simp add: message_or_def split: option.splits)

lemma try_block_success:
  assumes "ok res" and "json_outcome res = JsonValue data" and "data \<noteq> JNull"
  shows "try_block rt (Resolved res) =
           Inr \<lparr>title = nullish (member data (ascii ''first_answer'')) (JStr no_title),
                summary = nullish (member data (ascii ''second_answer'')) (JStr no_summary)\<rparr>"
  using assms by (simp add: try_block_def get_prop_member)

lemma try_block_refused:
  "\<not> ok res \<Longrightarrow> try_block rt (Resolved res) = Inl (throw_new_Error rt (error_detail rt res))"
  by (simp add: try_block_def)

lemma resume_success:
  assumes "ok res" and "json_outcome res = JsonValue data" and "data \<noteq> JNull"
  shows "fetchSummary_resume rt (Resolved res) s =
           s\<lparr>response :=
                Some \<lparr>title = nullish (member data (ascii ''first_answer'')) (JStr no_title),
                      summary = nullish (member data (ascii ''second_answer'')) (JStr no_summary)\<rparr>,
             isLoading := False\<rparr>"
  by (simp add: fetchSummary_resume_def try_block_success [OF assms])

lemma resume_failure:
  "try_block rt outcome = Inl e \<Longrightarrow>
   fetchSummary_resume rt outcome s =
     s\<lparr>response := None, error := message_or e unreachable_message, isLoading := False\<rparr>"
  by (simp add: fetchSummary_resume_def)

lemma resume_not_loading: "\<not> isLoading (fetchSummary_resume rt outcome s)"
  by (simp add: fetchSummary_resume_def)

lemma resume_response_error:
  "response (fetchSummary_resume rt outcome s) \<noteq> None \<Longrightarrow>
   error (fetchSummary_resume rt outcome s) = error s"
  by (cases "try_block rt outcome") (simp_all add: fetchSummary_resume_def)

lemma not_loading_no_card: "\<not> isLoading s \<Longrightarrow> LoadingCard \<notin> set (render s)"
  by (cases "response s") (simp_all add: render_def hasResult_def)

text \<open>
  The variable \<^verbatim>\<open>detail\<close> in terms of the reply's members: the \<^verbatim>\<open>detail\<close> member when
  it is truthy, else the \<^verbatim>\<open>error\<close> member when that is truthy, else the fallback.
\<close>

lemma error_detail_eq:
  "error_detail rt res =
     (if truthy (reply_member res (ascii ''detail'')) then reply_member res (ascii ''detail'')
      else js_or (reply_member res (ascii ''error'')) (Some (JStr fallbackMessage)))"
proof (cases "json_outcome res")
  case (JsonThrows e)
  then show ?thesis
    by (simp add: error_detail_def reply_member_def js_or_def)
next
  case (JsonValue v)
  show ?thesis
  proof (cases "v = JNull")
    case True
    with JsonValue show ?thesis
      by (simp add: error_detail_def reply_member_def member_def get_prop_def js_or_def)
  next
    case False
    with JsonValue show ?thesis
      by (simp add: error_detail_def reply_member_def get_prop_member)
  qed
qed

lemma refused_error:
  assumes "trim text \<noteq> []" and "net (make_request rt (trim text)) = Resolved res" and "\<not> ok res"
  shows "fetchSummary rt net text s =
           s\<lparr>isLoading := True, error := [], response := None,
             error := message_or (throw_new_Error rt (error_detail rt res)) unreachable_message,
             isLoading := False\<rparr>"
  using assms by (simp add: fetchSummary_nonblank resume_failure try_block_refused)

lemma panel_result:
  "\<not> isLoading s \<Longrightarrow> error s = [] \<Longrightarrow> response s = Some r \<Longrightarrow>
   panel s = (if react_child_ok (title r) \<and> react_child_ok (summary r)
              then Some [ResultCard (title r) (summary r)] else None)"
  by (simp add: panel_def render_result)

lemma panel_error:
  "\<not> isLoading s \<Longrightarrow> error s \<noteq> [] \<Longrightarrow> response s = None \<Longrightarrow>
   panel s = Some [ErrorCard (error s)]"
  by (simp add: panel_def render_error)

lemma truthy_the: "truthy f \<Longrightarrow> f = Some (the f)"
  by (cases f) simp_all

text \<open>
  The message the \<^verbatim>\<open>catch\<close> block surfaces for \<^verbatim>\<open>throw new Error(v)\<close>.
\<close>

lemma surfaced:
  "message_or (throw_new_Error rt (Some v)) fb =
     (case v of
        JStr m \<Rightarrow> if m = [] then fb else m
      | _ \<Rightarrow> (case ToString rt v of
                Inr m \<Rightarrow> if m = [] then fb else m
              | Inl e \<Rightarrow> (case message e of
                           None \<Rightarrow> fb
                         | Some m \<Rightarrow> if m = [] then fb else m)))"
  by (cases v) (simp_all add: throw_new_Error_def message_or_def split: sum.splits)

lemma refused_message:
  "trim text \<noteq> [] \<Longrightarrow> \<not> (200 \<le> code \<and> code \<le> 299) \<Longrightarrow>
   error (fetchSummary rt (refused code b) text s) =
     message_or (throw_new_Error rt (error_detail rt \<lparr>status = code, json_outcome = b\<rparr>))
       unreachable_message"
  using refused_error [where net = "refused code b" and res = "\<lparr>status = code, json_outcome = b\<rparr>"
      and rt = rt and s = s]
  by (simp add: refused_def ok_def)

lemma number_42: "Number_toString 0x4045000000000000 = ascii ''42''"
  by (simp add: Number_toString_def isNaN_def safe_integer_def Let_def decimal.simps ascii_def)

section \<open>Validation of the prompt\<close>

text \<open>
  C1. When the trimmed text is empty (the text is empty or consists of white space only),
  the synchronous part of \<^verbatim>\<open>fetchSummary\<close> sets the error to exactly
  "Enter a research topic to explore.", changes nothing else and issues no request; the
  whole call ends in that state, whatever the network would have answered.
\<close>

theorem blank_prompt_rejected:
  assumes "trim text = []"
  shows "fetchSummary_begin rt text s =
           (s\<lparr>error := ascii ''Enter a research topic to explore.''\<rparr>, None) \<and>
         fetchSummary rt net text s = s\<lparr>error := ascii ''Enter a research topic to explore.''\<rparr>"
  using assms
  by (simp add: fetchSummary_def await_fetch_def begin_blank validation_message_def)

theorem blank_prompt_rejected_witness:
  "trim (ascii ''  '' @ [0x3000, 0x0009]) = [] \<and>
   fetchSummary_begin example_runtime (ascii ''  '' @ [0x3000, 0x0009]) state_with_result =
     (\<lparr>prompt = ascii ''ai'',
       response = Some \<lparr>title = JStr (ascii ''T''), summary = JStr (ascii ''S'')\<rparr>,
       isLoading = False,
       error = ascii ''Enter a research topic to explore.''\<rparr>, None) \<and>
   fetchSummary example_runtime offline (ascii ''  '' @ [0x3000, 0x0009]) state_with_result =
     \<lparr>prompt = ascii ''ai'',
       response = Some \<lparr>title = JStr (ascii ''T''), summary = JStr (ascii ''S'')\<rparr>,
       isLoading = False,
       error = ascii ''Enter a research topic to explore.''\<rparr>"
proof -
  have blank: "trim (ascii ''  '' @ [0x3000, 0x0009]) = []"
    by (simp add: trim_def ascii_def isWhiteSpace_def)
  show ?thesis
    using blank blank_prompt_rejected [OF blank, of example_runtime state_with_result offline]
    by (simp add: state_with_result_def)
qed

section \<open>Issuing the request\<close>

text \<open>
  C2, as stated: for a text whose trim is not empty, both the prior error and the prior
  result are cleared when the request is issued. It fails: from a state that holds a
  result, submitting "ai" issues the request while \<^verbatim>\<open>response\<close> still holds that
  result. \<^verbatim>\<open>fetchSummary\<close> calls \<^verbatim>\<open>setIsLoading(true)\<close> and \<^verbatim>\<open>setError('')\<close> before
  \<^verbatim>\<open>fetch\<close>, and never \<^verbatim>\<open>setResponse\<close>.
\<close>

theorem begin_keeps_prior_result_counterexample:
  "trim (ascii ''ai'') \<noteq> [] \<and>
   fetchSummary_begin example_runtime (ascii ''ai'') state_with_result =
     (\<lparr>prompt = ascii ''ai'',
       response = Some \<lparr>title = JStr (ascii ''T''), summary = JStr (ascii ''S'')\<rparr>,
       isLoading = True,
       error = []\<rparr>,
      Some \<lparr>url = ascii ''http://127.0.0.1:8000/api/ask/'',
            http_method = ascii ''POST'',
            headers = [(ascii ''Content-Type'', ascii ''application/json'')],
            body = JObj [(ascii ''prompt'', JStr (ascii ''ai''))]\<rparr>) \<and>
   response (fst (fetchSummary_begin example_runtime (ascii ''ai'') state_with_result)) \<noteq> None"
  by (simp add: fetchSummary_begin_def Let_def trim_def isWhiteSpace_def ascii_def
      state_with_result_def make_request_def API_URL_def default_API_URL_def example_runtime_def)

text \<open>
  C2, amended: for a text whose trim is not empty, the synchronous part of
  \<^verbatim>\<open>fetchSummary\<close> issues the POST request with the trimmed text, and at that moment the
  error is empty and the loading flag is set; the prior result and the prompt are left
  as they were, and the panel shows the loading indicator alone, so neither an error nor
  a result is on display.
\<close>

theorem nonblank_prompt_issues_request:
  assumes "trim text \<noteq> []"
  shows "snd (fetchSummary_begin rt text s) =
           Some \<lparr>url = API_URL rt,
                 http_method = ascii ''POST'',
                 headers = [(ascii ''Content-Type'', ascii ''application/json'')],
                 body = JObj [(ascii ''prompt'', JStr (trim text))]\<rparr> \<and>
         error (fst (fetchSummary_begin rt text s)) = [] \<and>
         isLoading (fst (fetchSummary_begin rt text s)) \<and>
         response (fst (fetchSummary_begin rt text s)) = response s \<and>
         prompt (fst (fetchSummary_begin rt text s)) = prompt s \<and>
         render (fst (fetchSummary_begin rt text s)) = [LoadingCard]"
  using assms by (simp add: begin_nonblank make_request_def render_loading)

theorem nonblank_prompt_issues_request_witness:
  "trim (ascii '' ai '') \<noteq> [] \<and>
   snd (fetchSummary_begin example_runtime (ascii '' ai '') state_with_result) =
     Some \<lparr>url = ascii ''http://127.0.0.1:8000/api/ask/'',
           http_method = ascii ''POST'',
           headers = [(ascii ''Content-Type'', ascii ''application/json'')],
           body = JObj [(ascii ''prompt'', JStr (ascii ''ai''))]\<rparr> \<and>
   error (fst (fetchSummary_begin example_runtime (ascii '' ai '') state_with_result)) = [] \<and>
   isLoading (fst (fetchSummary_begin example_runtime (ascii '' ai '') state_with_result)) \<and>
   response (fst (fetchSummary_begin example_runtime (ascii '' ai '') state_with_result)) =
     Some \<lparr>title = JStr (ascii ''T''), summary = JStr (ascii ''S'')\<rparr> \<and>
   render (fst (fetchSummary_begin example_runtime (ascii '' ai '') state_with_result)) =
     [LoadingCard]"
proof -
  have t: "trim (ascii '' ai '') = ascii ''ai''"
    by (simp add: trim_def ascii_def isWhiteSpace_def)
  have nonblank: "trim (ascii '' ai '') \<noteq> []"
    by (simp add: trim_def ascii_def isWhiteSpace_def)
  show ?thesis
    using nonblank
      nonblank_prompt_issues_request [OF nonblank, of example_runtime state_with_result]
    by (simp add: t API_URL_def default_API_URL_def example_runtime_def state_with_result_def)
qed

section \<open>What the results panel shows\<close>

lemma suggestion_1_nonblank: "trim (suggestions ! Suc 0) \<noteq> []"
  by (simp add: suggestions_def trim_def ascii_def isWhiteSpace_def)

lemma space_blank: "trim (ascii '' '') = []"
  by (simp add: trim_def ascii_def isWhiteSpace_def)

lemma resume_answered:
  "fetchSummary_resume rt
     (Resolved \<lparr>status = 200, json_outcome = JsonValue (JObj
        [(ascii ''first_answer'', JStr t), (ascii ''second_answer'', JStr u)])\<rparr>) s =
   s\<lparr>response := Some \<lparr>title = JStr t, summary = JStr u\<rparr>, isLoading := False\<rparr>"
  by (simp add: fetchSummary_resume_def try_block_def ok_def get_prop_def ascii_def)

text \<open>
  C3 says that every reachable state shows exactly one of the four cards and never the
  error beside the result. The page breaks it: the user clicks the second suggestion,
  the request is answered with status 200 and both fields, the user replaces the prompt
  by a single space and submits. The validation branch of \<^verbatim>\<open>fetchSummary\<close> sets the
  error and returns without \<^verbatim>\<open>setResponse(null)\<close>, which the \<^verbatim>\<open>catch\<close> block does call
  when it sets an error, so the panel shows the error card and the result card together.
\<close>

theorem validation_error_beside_result:
  "render (app (run example_runtime
     [ClickSuggestion 1,
      Settle (Resolved \<lparr>status = 200, json_outcome = JsonValue (JObj
        [(ascii ''first_answer'', JStr (ascii ''T'')),
         (ascii ''second_answer'', JStr (ascii ''S''))])\<rparr>),
      Edit (ascii '' ''),
      SubmitForm]
     initial_page)) =
   [ErrorCard (ascii ''Enter a research topic to explore.''),
    ResultCard (JStr (ascii ''T'')) (JStr (ascii ''S''))]"
proof -
  let ?rt = example_runtime
  let ?r = "\<lparr>title = JStr (ascii ''T''), summary = JStr (ascii ''S'')\<rparr>"
  let ?p1 = "\<lparr>app = \<lparr>prompt = suggestions ! 1, response = None, isLoading = True, error = []\<rparr>,
               in_flight = Some (make_request ?rt (trim (suggestions ! 1)))\<rparr>"
  let ?p2 = "\<lparr>app = \<lparr>prompt = suggestions ! 1, response = Some ?r, isLoading = False, error = []\<rparr>,
               in_flight = None\<rparr>"
  let ?p3 = "\<lparr>app = \<lparr>prompt = ascii '' '', response = Some ?r, isLoading = False, error = []\<rparr>,
               in_flight = None\<rparr>"
  let ?p4 = "\<lparr>app = \<lparr>prompt = ascii '' '', response = Some ?r, isLoading = False,
                     error = validation_message\<rparr>,
               in_flight = None\<rparr>"
  have len: "\<not> length suggestions \<le> 1"
    by (simp add: suggestions_def)
  have 1: "page_step ?rt initial_page (ClickSuggestion 1) = ?p1"
    using len
    by (simp add: initial_page_def initial_state_def handleSuggestion_def
        begin_nonblank [OF suggestion_1_nonblank])
  have 2: "page_step ?rt ?p1 (Settle (Resolved \<lparr>status = 200, json_outcome = JsonValue (JObj
        [(ascii ''first_answer'', JStr (ascii ''T'')),
         (ascii ''second_answer'', JStr (ascii ''S''))])\<rparr>)) = ?p2"
    by (simp add: resume_answered)
  have 3: "page_step ?rt ?p2 (Edit (ascii '' '')) = ?p3"
    by (simp add: onChange_def)
  have 4: "page_step ?rt ?p3 SubmitForm = ?p4"
    by (simp add: handleSubmit_def begin_blank [OF space_blank])
  have "render (app ?p4) =
          [ErrorCard validation_message, ResultCard (JStr (ascii ''T'')) (JStr (ascii ''S''))]"
    by (simp add: render_def hasResult_def validation_message_def ascii_def)
  then show ?thesis
    by (simp only: run_Cons run_Nil 1 2 3 4 validation_message_def)
qed

text \<open>
  Apart from that, the cards exclude each other: every page the events can produce shows
  exactly one card, or the validation message above a result.
\<close>

lemma page_inv_initial: "page_inv initial_page"
  by (simp add: page_inv_def initial_page_def initial_state_def)

lemma page_inv_begin:
  assumes "page_inv p" and "\<not> isLoading (app p)" and "response s = response (app p)"
    and "isLoading s = isLoading (app p)" and "error s = error (app p)"
  shows "page_inv (case fetchSummary_begin rt text s of
              (s', None) \<Rightarrow> p\<lparr>app := s'\<rparr>
            | (s', Some req) \<Rightarrow> \<lparr>app = s', in_flight = Some req\<rparr>)"
proof (cases "trim text = []")
  case True
  with assms show ?thesis
    by (simp add: begin_blank page_inv_def)
next
  case False
  with assms show ?thesis
    by (simp add: begin_nonblank page_inv_def)
qed

lemma page_inv_step: "page_inv p \<Longrightarrow> page_inv (page_step rt p e)"
proof (cases e)
  case (Edit new_text)
  assume "page_inv p"
  then show ?thesis
    using Edit by (simp add: page_inv_def onChange_def)
next
  case SubmitForm
  assume "page_inv p"
  then show ?thesis
    using SubmitForm page_inv_begin [of p "app p" rt "prompt (app p)"]
    by (simp add: handleSubmit_def)
next
  case (ClickSuggestion i)
  assume "page_inv p"
  then show ?thesis
    using ClickSuggestion
      page_inv_begin [of p "(app p)\<lparr>prompt := suggestions ! i\<rparr>" rt "suggestions ! i"]
    by (simp add: handleSuggestion_def)
next
  case (Settle outcome)
  assume inv: "page_inv p"
  show ?thesis
  proof (cases "in_flight p")
    case None
    with inv Settle show ?thesis by simp
  next
    case (Some req)
    with inv have "error (app p) = []"
      by (simp add: page_inv_def)
    with Some Settle show ?thesis
      using resume_response_error [of rt outcome "app p"]
      by (auto simp: page_inv_def resume_not_loading)
  qed
qed

lemma page_inv_run: "page_inv p \<Longrightarrow> page_inv (run rt events p)"
  by (induction events arbitrary: p) (simp_all add: run_Nil run_Cons page_inv_step)

text \<open>Every reachable page shows one card, or the validation error above a result.\<close>

lemma reachable_cards:
  "length (render (app (run rt events initial_page))) = 1 \<or>
   (\<exists>t u. render (app (run rt events initial_page)) =
            [ErrorCard validation_message, ResultCard t u])"
proof -
  let ?s = "app (run rt events initial_page)"
  have "page_inv (run rt events initial_page)"
    by (rule page_inv_run [OF page_inv_initial])
  then have l: "isLoading ?s \<longrightarrow> error ?s = []"
    and r: "response ?s \<noteq> None \<longrightarrow> error ?s = [] \<or> error ?s = validation_message"
    by (simp_all add: page_inv_def)
  show ?thesis
  proof (cases "response ?s")
    case None
    with l show ?thesis
      by (auto simp: render_def hasResult_def)
  next
    case (Some res)
    with l r show ?thesis
      by (auto simp: render_def hasResult_def)
  qed
qed

section \<open>A request that is answered\<close>

text \<open>
  C4, as stated: for every reply with a status in the range 200 to 299 and a JSON body,
  the title displayed is the \<^verbatim>\<open>first_answer\<close> member or "No title returned", and the
  summary displayed is the \<^verbatim>\<open>second_answer\<close> member or the default text. It fails at two
  bodies. For the body \<^verbatim>\<open>null\<close>, reading \<^verbatim>\<open>data.first_answer\<close> throws, the \<^verbatim>\<open>catch\<close>
  block takes over, and the panel shows the error card with the TypeError's message
  instead of the defaults. For a body whose \<^verbatim>\<open>first_answer\<close> is an object, the object is
  stored as the title, React cannot render it as a child, and nothing is displayed.
\<close>

theorem null_or_object_answer_counterexample:
  "response (fetchSummary example_runtime
      (answered_with JNull)
      (ascii ''ai'') initial_state) = None \<and>
   panel (fetchSummary example_runtime
      (answered_with JNull)
      (ascii ''ai'') initial_state) =
     Some [ErrorCard (ascii ''Cannot read properties of null (reading '' @ [0x27] @
                      ascii ''first_answer'' @ [0x27] @ ascii '')'')] \<and>
   response (fetchSummary example_runtime
      (answered [(ascii ''first_answer'', JObj []), (ascii ''second_answer'', JStr (ascii ''S''))])
      (ascii ''ai'') initial_state) =
     Some \<lparr>title = JObj [], summary = JStr (ascii ''S'')\<rparr> \<and>
   panel (fetchSummary example_runtime
      (answered [(ascii ''first_answer'', JObj []), (ascii ''second_answer'', JStr (ascii ''S''))])
      (ascii ''ai'') initial_state) = None"
proof -
  let ?null = "answered_with JNull"
  let ?obj = "answered [(ascii ''first_answer'', JObj []), (ascii ''second_answer'', JStr (ascii ''S''))]"
  let ?msg = "ascii ''Cannot read properties of null (reading '' @ [0x27] @
                      ascii ''first_answer'' @ [0x27] @ ascii '')''"
  have m: "?msg \<noteq> []"
    by (simp add: ascii_def)
  have 1: "fetchSummary example_runtime ?null (ascii ''ai'') initial_state =
             \<lparr>prompt = [], response = None, isLoading = False, error = ?msg\<rparr>"
    using m
    by (simp add: fetchSummary_nonblank [OF ai_nonblank] fetchSummary_resume_def try_block_def
        ok_def get_prop_def message_or_def example_runtime_def initial_state_def
        answered_with_def)
  have 2: "fetchSummary example_runtime ?obj (ascii ''ai'') initial_state =
             \<lparr>prompt = [], response = Some \<lparr>title = JObj [], summary = JStr (ascii ''S'')\<rparr>,
              isLoading = False, error = []\<rparr>"
  proof -
    have "fetchSummary example_runtime ?obj (ascii ''ai'') initial_state =
            fetchSummary_resume example_runtime
              (Resolved \<lparr>status = 200, json_outcome = JsonValue (JObj
                 [(ascii ''first_answer'', JObj []), (ascii ''second_answer'', JStr (ascii ''S''))])\<rparr>)
              (initial_state\<lparr>isLoading := True, error := []\<rparr>)"
      by (simp add: fetchSummary_nonblank [OF ai_nonblank] answered_def)
    also have "\<dots> = \<lparr>prompt = [], response = Some \<lparr>title = JObj [], summary = JStr (ascii ''S'')\<rparr>,
              isLoading = False, error = []\<rparr>"
      by (simp add: fetchSummary_resume_def try_block_def ok_def get_prop_def initial_state_def
          ascii_def)
    finally show ?thesis .
  qed
  show ?thesis
    unfolding 1 2 using m by (simp add: panel_def render_def hasResult_def)
qed

text \<open>
  C4, amended: for a submission whose trimmed text is not empty and a reply with a status
  in the range 200 to 299 whose JSON body is not \<^verbatim>\<open>null\<close> (a value that is not an object
  has no members), the stored title is the \<^verbatim>\<open>first_answer\<close> member, or
  "No title returned" when that member is absent or null, the stored summary is the
  \<^verbatim>\<open>second_answer\<close> member, or "No summary available for this topic yet." when that
  member is absent or null, and no error is held. When React accepts both as children
  (neither is an object or an array that holds one), the panel shows the result card
  alone with that title and that summary as its children (a string or a number is
  displayed as text, a boolean as nothing); otherwise nothing is displayed. When both
  members are strings, exactly those two strings are shown.
\<close>

theorem success_shows_answers_or_defaults:
  assumes "trim text \<noteq> []"
    and "net (make_request rt (trim text)) = Resolved res"
    and "ok res"
    and "json_outcome res = JsonValue data"
    and "data \<noteq> JNull"
    and "member data (ascii ''first_answer'') = first_answer"
    and "member data (ascii ''second_answer'') = second_answer"
    and "shown_title =
           (if first_answer = None \<or> first_answer = Some JNull
            then JStr (ascii ''No title returned'') else the first_answer)"
    and "shown_summary =
           (if second_answer = None \<or> second_answer = Some JNull
            then JStr (ascii ''No summary available for this topic yet.'')
            else the second_answer)"
  shows "response (fetchSummary rt net text s) =
           Some \<lparr>title = shown_title, summary = shown_summary\<rparr> \<and>
         error (fetchSummary rt net text s) = [] \<and>
         panel (fetchSummary rt net text s) =
           (if react_child_ok shown_title \<and> react_child_ok shown_summary
            then Some [ResultCard shown_title shown_summary] else None) \<and>
         (\<forall>t u. first_answer = Some (JStr t) \<and> second_answer = Some (JStr u) \<longrightarrow>
            panel (fetchSummary rt net text s) = Some [ResultCard (JStr t) (JStr u)])"
proof -
  let ?r = "\<lparr>title = shown_title, summary = shown_summary\<rparr>"
  have t: "nullish first_answer (JStr no_title) = shown_title"
    and u: "nullish second_answer (JStr no_summary) = shown_summary"
    using assms(8,9) by (simp_all add: nullish_eq no_title_def no_summary_def)
  have st: "fetchSummary rt net text s =
          s\<lparr>isLoading := True, error := [], response := Some ?r, isLoading := False\<rparr>"
    using assms(1-7) by (simp add: fetchSummary_nonblank resume_success t u)
  have 1: "response (fetchSummary rt net text s) = Some ?r"
    and 2: "error (fetchSummary rt net text s) = []"
    and 3: "\<not> isLoading (fetchSummary rt net text s)"
    by (simp_all add: st)
  have 4: "panel (fetchSummary rt net text s) =
           (if react_child_ok shown_title \<and> react_child_ok shown_summary
            then Some [ResultCard shown_title shown_summary] else None)"
    using panel_result [OF 3 2 1] by simp
  have 5: "\<forall>t u. first_answer = Some (JStr t) \<and> second_answer = Some (JStr u) \<longrightarrow>
            panel (fetchSummary rt net text s) = Some [ResultCard (JStr t) (JStr u)]"
    unfolding 4 using assms(8,9) by auto
  show ?thesis
    using 1 2 4 5 by blast
qed

theorem success_shows_answers_or_defaults_witness:
  "response (fetchSummary example_runtime
      (answered [(ascii ''first_answer'', JStr (ascii ''Quantum Speedups''))])
      (ascii ''ai'') state_with_result) =
     Some \<lparr>title = JStr (ascii ''Quantum Speedups''),
           summary = JStr (ascii ''No summary available for this topic yet.'')\<rparr> \<and>
   panel (fetchSummary example_runtime
      (answered [(ascii ''first_answer'', JStr (ascii ''Quantum Speedups''))])
      (ascii ''ai'') state_with_result) =
     Some [ResultCard (JStr (ascii ''Quantum Speedups''))
                      (JStr (ascii ''No summary available for this topic yet.''))]"
proof -
  let ?props = "[(ascii ''first_answer'', JStr (ascii ''Quantum Speedups''))]"
  let ?res = "\<lparr>status = 200, json_outcome = JsonValue (JObj ?props)\<rparr>"
  have h2: "answered ?props (make_request example_runtime (trim (ascii ''ai''))) = Resolved ?res"
    by (simp add: answered_def)
  have h3: "ok ?res"
    by (simp add: ok_def)
  have h4: "json_outcome ?res = JsonValue (JObj ?props)"
    by simp
  have h5: "JObj ?props \<noteq> JNull"
    by simp
  have h6: "member (JObj ?props) (ascii ''first_answer'') = Some (JStr (ascii ''Quantum Speedups''))"
    by (simp add: member_def)
  have h7: "member (JObj ?props) (ascii ''second_answer'') = None"
    by (simp add: member_def ascii_def)
  show ?thesis
    using success_shows_answers_or_defaults
      [where rt = example_runtime and net = "answered ?props" and s = state_with_result,
       OF ai_nonblank h2 h3 h4 h5 h6 h7 refl refl]
    by simp
qed



section \<open>A request that fails\<close>

text \<open>
  C5, as stated: for every reply with a status outside 200 to 299, the error message is
  the body's \<^verbatim>\<open>detail\<close> member if available, otherwise its \<^verbatim>\<open>error\<close> member,
  otherwise "Something went wrong. Please try again."; a body \<^verbatim>\<open>{"detail": "X"}\<close>
  surfaces X. It fails at two bodies. \<^verbatim>\<open>{"detail": ""}\<close> surfaces the fallback, not the
  empty string. \<^verbatim>\<open>{"detail": [], "error": "E"}\<close> surfaces
  "Unable to reach the research service.", which is neither member nor that fallback:
  the empty array is truthy, so \<^verbatim>\<open>||\<close> selects it, \<^verbatim>\<open>new Error([])\<close> has the empty
  message, and the \<^verbatim>\<open>catch\<close> block replaces an empty message by its own fallback.
\<close>

theorem empty_or_array_detail_counterexample:
  "error (fetchSummary example_runtime
      (refused 400 (JsonValue (JObj [(ascii ''detail'', JStr [])])))
      (ascii ''ai'') initial_state) = ascii ''Something went wrong. Please try again.'' \<and>
   error (fetchSummary example_runtime
      (refused 400 (JsonValue (JObj [(ascii ''detail'', JArr []), (ascii ''error'', JStr (ascii ''E''))])))
      (ascii ''ai'') initial_state) = ascii ''Unable to reach the research service.''"
proof -
  let ?b1 = "JsonValue (JObj [(ascii ''detail'', JStr [])])"
  let ?b2 = "JsonValue (JObj [(ascii ''detail'', JArr []), (ascii ''error'', JStr (ascii ''E''))])"
  have "error (fetchSummary example_runtime (refused 400 ?b1) (ascii ''ai'') initial_state) =
          message_or (throw_new_Error example_runtime
            (error_detail example_runtime \<lparr>status = 400, json_outcome = ?b1\<rparr>)) unreachable_message"
    by (rule refused_message [OF ai_nonblank]) simp
  also have "\<dots> = ascii ''Something went wrong. Please try again.''"
    by (simp add: error_detail_def get_prop_def js_or_def throw_new_Error_def message_or_def
        fallbackMessage_def ascii_def)
  finally have 1: "error (fetchSummary example_runtime (refused 400 ?b1) (ascii ''ai'') initial_state) =
          ascii ''Something went wrong. Please try again.''" .
  have "error (fetchSummary example_runtime (refused 400 ?b2) (ascii ''ai'') initial_state) =
          message_or (throw_new_Error example_runtime
            (error_detail example_runtime \<lparr>status = 400, json_outcome = ?b2\<rparr>)) unreachable_message"
    by (rule refused_message [OF ai_nonblank]) simp
  also have "\<dots> = ascii ''Unable to reach the research service.''"
    by (simp add: error_detail_def get_prop_def throw_new_Error_def message_or_def
        example_runtime_def unreachable_message_def)
  finally have 2: "error (fetchSummary example_runtime (refused 400 ?b2) (ascii ''ai'') initial_state) =
          ascii ''Unable to reach the research service.''" .
  show ?thesis
    using 1 2 by (rule conjI)
qed

text \<open>
  C5, amended: for a submission whose trimmed text is not empty and a reply with a status
  outside 200 to 299, the value surfaced is the body's \<^verbatim>\<open>detail\<close> member when that is
  truthy (not absent, \<^verbatim>\<open>null\<close>, \<^verbatim>\<open>false\<close>, zero, NaN or the empty string), otherwise its
  \<^verbatim>\<open>error\<close> member when that is truthy, otherwise the fallback
  "Something went wrong. Please try again."; a body that is not JSON, or has no members,
  gives the fallback. A string is surfaced as it is. A value that is not a string is
  surfaced as its conversion to a string; when that conversion is the empty string, or
  throws an exception without a message, the message is
  "Unable to reach the research service.", and when it throws one with a message, that
  message. In particular a \<^verbatim>\<open>detail\<close> that is a string and not empty is the message, a
  \<^verbatim>\<open>detail\<close> that is absent, null or empty yields an \<^verbatim>\<open>error\<close> that is a string and not
  empty, and when both are absent, null or empty the message is the fallback.
\<close>

theorem refusal_surfaces_detail_error_or_fallback:
  assumes "trim text \<noteq> []"
    and "net (make_request rt (trim text)) = Resolved res"
    and "\<not> ok res"
    and "reply_member res (ascii ''detail'') = detail"
    and "reply_member res (ascii ''error'') = err"
    and "chosen =
           (if truthy detail then the detail
            else if truthy err then the err
            else JStr (ascii ''Something went wrong. Please try again.''))"
  shows "error (fetchSummary rt net text s) =
           (case chosen of
              JStr m \<Rightarrow> m
            | _ \<Rightarrow>
                (case ToString rt chosen of
                   Inr m \<Rightarrow> if m = [] then ascii ''Unable to reach the research service.'' else m
                 | Inl e \<Rightarrow>
                     (case message e of
                        None \<Rightarrow> ascii ''Unable to reach the research service.''
                      | Some m \<Rightarrow>
                          if m = [] then ascii ''Unable to reach the research service.'' else m))) \<and>
         (\<forall>d. detail = Some (JStr d) \<and> d \<noteq> [] \<longrightarrow> error (fetchSummary rt net text s) = d) \<and>
         (\<forall>e. (detail = None \<or> detail = Some JNull \<or> detail = Some (JStr [])) \<and>
               err = Some (JStr e) \<and> e \<noteq> [] \<longrightarrow>
               error (fetchSummary rt net text s) = e) \<and>
         ((detail = None \<or> detail = Some JNull \<or> detail = Some (JStr [])) \<and>
          (err = None \<or> err = Some JNull \<or> err = Some (JStr [])) \<longrightarrow>
            error (fetchSummary rt net text s) = ascii ''Something went wrong. Please try again.'')"
proof -
  have e: "error (fetchSummary rt net text s) =
             message_or (throw_new_Error rt (error_detail rt res)) unreachable_message"
    using assms(1,2,3) by (simp add: refused_error)
  have d: "error_detail rt res = Some chosen"
    using assms(4,5,6) truthy_the [of detail] truthy_the [of err]
    by (simp add: error_detail_eq js_or_def fallbackMessage_def)
  have str: "\<And>m. chosen = JStr m \<Longrightarrow> m \<noteq> []"
    using assms(6) truthy_the [of detail] truthy_the [of err]
    by (auto simp: ascii_def split: if_splits)
  have main: "error (fetchSummary rt net text s) =
           (case chosen of
              JStr m \<Rightarrow> m
            | _ \<Rightarrow>
                (case ToString rt chosen of
                   Inr m \<Rightarrow> if m = [] then ascii ''Unable to reach the research service.'' else m
                 | Inl e \<Rightarrow>
                     (case message e of
                        None \<Rightarrow> ascii ''Unable to reach the research service.''
                      | Some m \<Rightarrow>
                          if m = [] then ascii ''Unable to reach the research service.'' else m)))"
    unfolding e d surfaced unreachable_message_def using str
    by (cases chosen) simp_all
  have 1: "\<forall>d. detail = Some (JStr d) \<and> d \<noteq> [] \<longrightarrow> error (fetchSummary rt net text s) = d"
    unfolding main using assms(6) by auto
  have 2: "\<forall>e. (detail = None \<or> detail = Some JNull \<or> detail = Some (JStr [])) \<and>
               err = Some (JStr e) \<and> e \<noteq> [] \<longrightarrow>
               error (fetchSummary rt net text s) = e"
    unfolding main using assms(6) by auto
  have 3: "(detail = None \<or> detail = Some JNull \<or> detail = Some (JStr [])) \<and>
          (err = None \<or> err = Some JNull \<or> err = Some (JStr [])) \<longrightarrow>
            error (fetchSummary rt net text s) = ascii ''Something went wrong. Please try again.''"
    unfolding main using assms(6) by auto
  show ?thesis
    using main 1 2 3 by blast
qed

theorem refusal_surfaces_detail_error_or_fallback_witness:
  "error (fetchSummary example_runtime
      (refused 429 (JsonValue (JObj [(ascii ''detail'', JStr (ascii ''Rate limited''))])))
      (ascii ''ai'') state_with_result) = ascii ''Rate limited'' \<and>
   error (fetchSummary example_runtime
      (refused 500 (JsonValue (JObj [(ascii ''detail'', JStr []), (ascii ''error'', JStr (ascii ''Boom''))])))
      (ascii ''ai'') state_with_result) = ascii ''Boom'' \<and>
   error (fetchSummary example_runtime
      (refused 502 (JsonThrows (Thrown (Some (ascii ''Unexpected token <'')))))
      (ascii ''ai'') state_with_result) = ascii ''Something went wrong. Please try again.'' \<and>
   error (fetchSummary example_runtime
      (refused 422 (JsonValue (JObj [(ascii ''detail'', JNum 0x4045000000000000)])))
      (ascii ''ai'') state_with_result) = ascii ''42'' \<and>
   error (fetchSummary example_runtime
      (refused 400 (JsonValue (JObj [(ascii ''detail'', JArr [])])))
      (ascii ''ai'') state_with_result) = ascii ''Unable to reach the research service.'' \<and>
   error (fetchSummary example_runtime
      (refused 400 (JsonValue (JObj [(ascii ''detail'', JObj [(ascii ''toString'', JNull)])])))
      (ascii ''ai'') state_with_result) = ascii ''Cannot convert object to primitive value''"
proof -
  let ?b1 = "JsonValue (JObj [(ascii ''detail'', JStr (ascii ''Rate limited''))])"
  let ?b2 = "JsonValue (JObj [(ascii ''detail'', JStr []), (ascii ''error'', JStr (ascii ''Boom''))])"
  let ?b3 = "JsonThrows (Thrown (Some (ascii ''Unexpected token <'')))"
  let ?b4 = "JsonValue (JObj [(ascii ''detail'', JNum 0x4045000000000000)])"
  let ?b5 = "JsonValue (JObj [(ascii ''detail'', JArr [])])"
  let ?b6 = "JsonValue (JObj [(ascii ''detail'', JObj [(ascii ''toString'', JNull)])])"
  have n: "\<And>code b. refused code b (make_request example_runtime (trim (ascii ''ai''))) =
              Resolved \<lparr>status = code, json_outcome = b\<rparr>"
    by (simp add: refused_def)
  have k1: "\<not> ok \<lparr>status = 429, json_outcome = ?b1\<rparr>"
    and k2: "\<not> ok \<lparr>status = 500, json_outcome = ?b2\<rparr>"
    and k3: "\<not> ok \<lparr>status = 502, json_outcome = ?b3\<rparr>"
    and k4: "\<not> ok \<lparr>status = 422, json_outcome = ?b4\<rparr>"
    and k5: "\<not> ok \<lparr>status = 400, json_outcome = ?b5\<rparr>"
    and k6: "\<not> ok \<lparr>status = 400, json_outcome = ?b6\<rparr>"
    by (simp_all add: ok_def)
  have d1: "reply_member \<lparr>status = 429, json_outcome = ?b1\<rparr> (ascii ''detail'') =
              Some (JStr (ascii ''Rate limited''))"
    and e1: "reply_member \<lparr>status = 429, json_outcome = ?b1\<rparr> (ascii ''error'') = None"
    and d2: "reply_member \<lparr>status = 500, json_outcome = ?b2\<rparr> (ascii ''detail'') = Some (JStr [])"
    and e2: "reply_member \<lparr>status = 500, json_outcome = ?b2\<rparr> (ascii ''error'') =
              Some (JStr (ascii ''Boom''))"
    and d3: "reply_member \<lparr>status = 502, json_outcome = ?b3\<rparr> (ascii ''detail'') = None"
    and e3: "reply_member \<lparr>status = 502, json_outcome = ?b3\<rparr> (ascii ''error'') = None"
    and d4: "reply_member \<lparr>status = 422, json_outcome = ?b4\<rparr> (ascii ''detail'') =
              Some (JNum 0x4045000000000000)"
    and e4: "reply_member \<lparr>status = 422, json_outcome = ?b4\<rparr> (ascii ''error'') = None"
    and d5: "reply_member \<lparr>status = 400, json_outcome = ?b5\<rparr> (ascii ''detail'') = Some (JArr [])"
    and e5: "reply_member \<lparr>status = 400, json_outcome = ?b5\<rparr> (ascii ''error'') = None"
    and d6: "reply_member \<lparr>status = 400, json_outcome = ?b6\<rparr> (ascii ''detail'') =
              Some (JObj [(ascii ''toString'', JNull)])"
    and e6: "reply_member \<lparr>status = 400, json_outcome = ?b6\<rparr> (ascii ''error'') = None"
    by (simp_all add: reply_member_def member_def ascii_def)
  have r: "ascii ''Rate limited'' \<noteq> []" and b: "ascii ''Boom'' \<noteq> []"
    and f: "ascii ''42'' \<noteq> []"
    and c: "ascii ''Cannot convert object to primitive value'' \<noteq> []"
    by (simp_all add: ascii_def)
  note t1 = refusal_surfaces_detail_error_or_fallback
        [where rt = example_runtime and net = "refused 429 ?b1" and s = state_with_result,
         OF ai_nonblank n k1 d1 e1 refl, THEN conjunct1]
  note t2 = refusal_surfaces_detail_error_or_fallback
        [where rt = example_runtime and net = "refused 500 ?b2" and s = state_with_result,
         OF ai_nonblank n k2 d2 e2 refl, THEN conjunct1]
  note t3 = refusal_surfaces_detail_error_or_fallback
        [where rt = example_runtime and net = "refused 502 ?b3" and s = state_with_result,
         OF ai_nonblank n k3 d3 e3 refl, THEN conjunct1]
  note t4 = refusal_surfaces_detail_error_or_fallback
        [where rt = example_runtime and net = "refused 422 ?b4" and s = state_with_result,
         OF ai_nonblank n k4 d4 e4 refl, THEN conjunct1]
  note t5 = refusal_surfaces_detail_error_or_fallback
        [where rt = example_runtime and net = "refused 400 ?b5" and s = state_with_result,
         OF ai_nonblank n k5 d5 e5 refl, THEN conjunct1]
  note t6 = refusal_surfaces_detail_error_or_fallback
        [where rt = example_runtime and net = "refused 400 ?b6" and s = state_with_result,
         OF ai_nonblank n k6 d6 e6 refl, THEN conjunct1]
  have c1: "error (fetchSummary example_runtime (refused 429 ?b1) (ascii ''ai'') state_with_result) =
              ascii ''Rate limited''"
    using t1 r by simp
  have c2: "error (fetchSummary example_runtime (refused 500 ?b2) (ascii ''ai'') state_with_result) =
              ascii ''Boom''"
    using t2 b by simp
  have c3: "error (fetchSummary example_runtime (refused 502 ?b3) (ascii ''ai'') state_with_result) =
              ascii ''Something went wrong. Please try again.''"
    using t3 by simp
  have c4: "error (fetchSummary example_runtime (refused 422 ?b4) (ascii ''ai'') state_with_result) =
              ascii ''42''"
    using t4 f by (simp add: isNaN_def example_runtime_def number_42)
  have c5: "error (fetchSummary example_runtime (refused 400 ?b5) (ascii ''ai'') state_with_result) =
              ascii ''Unable to reach the research service.''"
    using t5 by (simp add: example_runtime_def)
  have c6: "error (fetchSummary example_runtime (refused 400 ?b6) (ascii ''ai'') state_with_result) =
              ascii ''Cannot convert object to primitive value''"
    using t6 c by (simp add: example_runtime_def)
  show ?thesis
    using c1 c2 c3 c4 c5 c6 by simp
qed

text \<open>
  C7. For a submission whose trimmed text is not empty and a failure that is not a status
  outside 200 to 299 (\<^verbatim>\<open>fetch\<close> rejects, \<^verbatim>\<open>res.json()\<close> throws on the body of a
  successful reply, or that body is \<^verbatim>\<open>null\<close> and reading \<^verbatim>\<open>first_answer\<close> throws), the
  error is set to the message of what was thrown, or to
  "Unable to reach the research service." when that has no message or an empty one.
\<close>

theorem other_failure_surfaces_message_or_fallback:
  assumes "trim text \<noteq> []"
    and "net (make_request rt (trim text)) = outcome"
    and "outcome = Rejected e \<or>
         (\<exists>res. outcome = Resolved res \<and> ok res \<and> json_outcome res = JsonThrows e) \<or>
         (\<exists>res. outcome = Resolved res \<and> ok res \<and> json_outcome res = JsonValue JNull \<and>
                e = null_read_error rt (ascii ''first_answer''))"
  shows "error (fetchSummary rt net text s) =
           (case message e of
              None \<Rightarrow> ascii ''Unable to reach the research service.''
            | Some m \<Rightarrow> if m = [] then ascii ''Unable to reach the research service.'' else m)"
proof -
  have "try_block rt outcome = Inl e"
    using assms(3) by (auto simp: try_block_def get_prop_def)
  then have "fetchSummary rt net text s =
      s\<lparr>isLoading := True, error := [], response := None,
        error := message_or e unreachable_message, isLoading := False\<rparr>"
    using assms(1,2) by (simp add: fetchSummary_nonblank resume_failure)
  then show ?thesis
    by (simp add: message_or_def unreachable_message_def)
qed

theorem other_failure_surfaces_message_or_fallback_witness:
  "error (fetchSummary example_runtime offline (ascii ''ai'') state_with_result) =
     ascii ''Failed to fetch'' \<and>
   error (fetchSummary example_runtime (\<lambda>req. Rejected (Thrown None)) (ascii ''ai'')
     state_with_result) = ascii ''Unable to reach the research service.''"
proof -
  have o: "offline (make_request example_runtime (trim (ascii ''ai''))) =
             Rejected (Thrown (Some (ascii ''Failed to fetch'')))"
    by (simp add: offline_def)
  have f: "ascii ''Failed to fetch'' \<noteq> []"
    by (simp add: ascii_def)
  show ?thesis
    using f
      other_failure_surfaces_message_or_fallback
        [where rt = example_runtime and net = offline and s = state_with_result
           and e = "Thrown (Some (ascii ''Failed to fetch''))", OF ai_nonblank o]
      other_failure_surfaces_message_or_fallback
        [where rt = example_runtime and net = "\<lambda>req. Rejected (Thrown None)"
           and s = state_with_result and e = "Thrown None", OF ai_nonblank refl]
    by simp
qed

text \<open>
  C10. For a submission whose trimmed text is not empty and a request that fails (\<^verbatim>\<open>fetch\<close>
  rejects, the status is outside 200 to 299, or reading the body throws), the \<^verbatim>\<open>catch\<close>
  block sets the result to \<^verbatim>\<open>null\<close> together with an error message that is not empty,
  whatever result the state held before, and the panel shows the error card alone.
\<close>

theorem failure_discards_result:
  assumes "trim text \<noteq> []"
    and "net (make_request rt (trim text)) = outcome"
    and "(\<exists>e. outcome = Rejected e) \<or>
         (\<exists>res. outcome = Resolved res \<and>
            (\<not> ok res \<or> (\<exists>e. json_outcome res = JsonThrows e) \<or>
             json_outcome res = JsonValue JNull))"
  shows "response (fetchSummary rt net text s) = None \<and>
         error (fetchSummary rt net text s) \<noteq> [] \<and>
         render (fetchSummary rt net text s) = [ErrorCard (error (fetchSummary rt net text s))]"
proof -
  have "\<exists>e. try_block rt outcome = Inl e"
    using assms(3) by (auto simp: try_block_def get_prop_def)
  then obtain e where "try_block rt outcome = Inl e" ..
  then have st: "fetchSummary rt net text s =
      s\<lparr>isLoading := True, error := [], response := None,
        error := message_or e unreachable_message, isLoading := False\<rparr>"
    using assms(1,2) by (simp add: fetchSummary_nonblank resume_failure)
  have ne: "message_or e unreachable_message \<noteq> []"
    by (rule message_or_nonempty [OF unreachable_message_nonempty])
  have 1: "response (fetchSummary rt net text s) = None"
    by (simp add: st)
  have 2: "error (fetchSummary rt net text s) \<noteq> []"
    using ne by (simp add: st)
  have 3: "\<not> isLoading (fetchSummary rt net text s)"
    by (simp add: st)
  show ?thesis
    using 1 2 render_error [OF 3 2 1] by simp
qed

theorem failure_discards_result_witness:
  "response (fetchSummary example_runtime offline (ascii ''ai'') state_with_result) = None \<and>
   render (fetchSummary example_runtime offline (ascii ''ai'') state_with_result) =
     [ErrorCard (ascii ''Failed to fetch'')] \<and>
   response (fetchSummary example_runtime (refused 404 (JsonValue (JObj []))) (ascii ''ai'')
     state_with_result) = None \<and>
   render (fetchSummary example_runtime (refused 404 (JsonValue (JObj []))) (ascii ''ai'')
     state_with_result) = [ErrorCard (ascii ''Something went wrong. Please try again.'')]"
proof -
  have o: "offline (make_request example_runtime (trim (ascii ''ai''))) =
             Rejected (Thrown (Some (ascii ''Failed to fetch'')))"
    by (simp add: offline_def)
  have n: "refused 404 (JsonValue (JObj [])) (make_request example_runtime (trim (ascii ''ai''))) =
             Resolved \<lparr>status = 404, json_outcome = JsonValue (JObj [])\<rparr>"
    by (simp add: refused_def)
  have k: "\<not> ok \<lparr>status = 404, json_outcome = JsonValue (JObj [])\<rparr>"
    by (simp add: ok_def)
  have f: "ascii ''Failed to fetch'' \<noteq> []"
    by (simp add: ascii_def)
  have e1: "error (fetchSummary example_runtime offline (ascii ''ai'') state_with_result) =
              ascii ''Failed to fetch''"
    using f
    by (simp add: fetchSummary_nonblank [OF ai_nonblank] o fetchSummary_resume_def try_block_def
        message_or_def)
  have e2: "error (fetchSummary example_runtime (refused 404 (JsonValue (JObj []))) (ascii ''ai'')
              state_with_result) = ascii ''Something went wrong. Please try again.''"
    using fallbackMessage_nonempty
    by (simp add: fetchSummary_nonblank [OF ai_nonblank] n k fetchSummary_resume_def try_block_def
        error_detail_def get_prop_def js_or_def throw_new_Error_def message_or_def
        fallbackMessage_def)
  show ?thesis
    using failure_discards_result
        [where rt = example_runtime and net = offline and s = state_with_result,
         OF ai_nonblank o]
      failure_discards_result
        [where rt = example_runtime and net = "refused 404 (JsonValue (JObj []))"
           and s = state_with_result, OF ai_nonblank n]
      k
    by (simp add: e1 e2)
qed

section \<open>The loading flag\<close>

text \<open>
  C6. For a submission whose trimmed text is not empty, the loading flag is set when the
  request is issued and is false once the call has terminated, however the request was
  settled (\<open>net\<close> is arbitrary); the loading indicator is then not shown.
\<close>

theorem loading_cleared_after_settling:
  assumes "trim text \<noteq> []"
  shows "isLoading (fst (fetchSummary_begin rt text s)) \<and>
         \<not> isLoading (fetchSummary rt net text s) \<and>
         LoadingCard \<notin> set (render (fetchSummary rt net text s))"
  using assms
  by (simp add: begin_nonblank fetchSummary_nonblank resume_not_loading not_loading_no_card)

theorem loading_cleared_after_settling_witness:
  "isLoading (fst (fetchSummary_begin example_runtime (ascii ''ai'') state_with_result)) \<and>
   \<not> isLoading (fetchSummary example_runtime offline (ascii ''ai'') state_with_result) \<and>
   LoadingCard \<notin> set (render (fetchSummary example_runtime offline (ascii ''ai'') state_with_result))"
  by (rule loading_cleared_after_settling
        [where rt = example_runtime and s = state_with_result and net = offline, OF ai_nonblank])

section \<open>Suggestions\<close>

text \<open>
  C8. Clicking a suggestion has the effect of typing its text into the input and
  submitting the form: the synchronous parts of \<^verbatim>\<open>handleSuggestion\<close> and of \<^verbatim>\<open>onChange\<close>
  followed by \<^verbatim>\<open>handleSubmit\<close> yield the same state, with the prompt set to the text,
  and the same request or validation error, and the state after the request has settled
  is the same for every way the network settles it.
\<close>

theorem suggestion_is_edit_then_submit:
  "handleSuggestion rt text s = handleSubmit rt (onChange text s) \<and>
   prompt (fst (handleSuggestion rt text s)) = text \<and>
   await_fetch rt net (handleSuggestion rt text s) =
     await_fetch rt net (handleSubmit rt (onChange text s))"
  by (simp add: handleSuggestion_def handleSubmit_def onChange_def fetchSummary_begin_def Let_def)

theorem suggestion_is_edit_then_submit_witness:
  "handleSuggestion example_runtime (suggestions ! 0) state_with_result =
     handleSubmit example_runtime (onChange (suggestions ! 0) state_with_result) \<and>
   prompt (fst (handleSuggestion example_runtime (suggestions ! 0) state_with_result)) =
     suggestions ! 0 \<and>
   await_fetch example_runtime offline
       (handleSuggestion example_runtime (suggestions ! 0) state_with_result) =
     await_fetch example_runtime offline
       (handleSubmit example_runtime (onChange (suggestions ! 0) state_with_result))"
  by (rule suggestion_is_edit_then_submit
        [of example_runtime "suggestions ! 0" state_with_result offline])

end
